theory Spec2Isabelle
  imports Main "HOL-Library.Word"
begin

section \<open>Strings, bytes and hexadecimal encoding\<close>

text \<open>
  JavaScript strings are modelled as \<open>string\<close>: lists of code units below 256, the
  Latin-1 range of Unicode (\<open>CHR 0xE9\<close> is U+00E9). Buffers are lists of bytes.
  \<open>String.prototype.trim\<close> strips white space and line terminators; below 256 these are
  TAB, LF, VT, FF, CR, SPACE and the no-break space U+00A0. \<open>String.prototype.toLowerCase\<close>
  maps \<open>A\<close>..\<open>Z\<close> and the capital letters U+00C0..U+00DE (all of that range but the
  multiplication sign U+00D7) to the code unit 32 above, and leaves every other code unit
  below 256 as it is.
\<close>

type_synonym byte = "8 word"

definition isSpace :: "char \<Rightarrow> bool" where
  "isSpace c = (of_char c \<in> {9::nat, 10, 11, 12, 13, 32, 160})"

definition trim :: "string \<Rightarrow> string" where
  "trim s = rev (dropWhile isSpace (rev (dropWhile isSpace s)))"

definition isUpper :: "char \<Rightarrow> bool" where
  "isUpper c =
     (let n = (of_char c :: nat)
      in (65 \<le> n \<and> n \<le> 90) \<or> (192 \<le> n \<and> n \<le> 222 \<and> n \<noteq> 215))"

definition lowerChar :: "char \<Rightarrow> char" where
  "lowerChar c = (if isUpper c then char_of (of_char c + (32::nat)) else c)"

definition toLowerCase :: "string \<Rightarrow> string" where
  "toLowerCase s = map lowerChar s"

text \<open>\<open>Buffer.toString("hex")\<close>: two lower-case hexadecimal digits per byte, high nibble first
  (\<open>0\<close>..\<open>9\<close> are the characters 48..57, \<open>a\<close>..\<open>f\<close> the characters 97..102).\<close>

definition hexDigit :: "nat \<Rightarrow> char" where
  "hexDigit n = (let d = n mod 16 in if d < 10 then char_of (48 + d) else char_of (87 + d))"

definition hexByte :: "byte \<Rightarrow> string" where
  "hexByte b = [hexDigit (unat b div 16), hexDigit (unat b mod 16)]"

definition toHex :: "byte list \<Rightarrow> string" where
  "toHex bs = concat (map hexByte bs)"

definition hexVal :: "char \<Rightarrow> nat" where
  "hexVal c = (let n = (of_char c :: nat) in if n < 58 then n - 48 else n - 87)"

definition isHexDigit :: "char \<Rightarrow> bool" where
  "isHexDigit c = (let n = (of_char c :: nat) in (48 \<le> n \<and> n \<le> 57) \<or> (97 \<le> n \<and> n \<le> 102))"

section \<open>The entropy source\<close>

text \<open>
  \<open>crypto.randomBytes(n)\<close> draws \<open>n\<close> bytes from the operating system's entropy source.
  The source is an infinite sequence of bytes; a draw returns its first \<open>n\<close> bytes and the
  sequence that follows them.
\<close>

type_synonym entropy = "nat \<Rightarrow> byte"

definition randomBytes :: "nat \<Rightarrow> entropy \<Rightarrow> byte list \<times> entropy" where
  "randomBytes n e = (map e [0..<n], \<lambda>i. e (i + n))"

section \<open>Library functions and process configuration\<close>

text \<open>
  The functions of \<open>crypto\<close>, \<open>jsonwebtoken\<close>, \<open>express-jwt\<close> and \<open>validator\<close> that the
  program calls are not part of the repository. They are fields of the record \<open>lib\<close>, so
  that every theorem holds for whatever these functions compute. \<open>JWT_SECRET\<close> is
  \<open>process.env.JWT_SECRET\<close>, and \<open>LocalTZA\<close> is the local time zone adjustment of the
  ECMAScript \<open>Date\<close> object (\<open>LocalTZA(t, isUTC)\<close>, in milliseconds).
\<close>

record jwt_payload =
  p_id :: string
  p_email :: string
  p_name :: string
  p_exp :: int

record lib =
  pbkdf2Sync :: "string \<Rightarrow> string \<Rightarrow> nat \<Rightarrow> nat \<Rightarrow> string \<Rightarrow> byte list"
  jwt_sign :: "jwt_payload \<Rightarrow> string \<Rightarrow> string"
  jwt_verify :: "string \<Rightarrow> string \<Rightarrow> int \<Rightarrow> jwt_payload option"
  isEmail :: "string \<Rightarrow> bool"
  normalizeEmail :: "string \<Rightarrow> string"
  escape :: "string \<Rightarrow> string"
  LocalTZA :: "int \<Rightarrow> bool \<Rightarrow> int"
  JWT_SECRET :: string

section \<open>The user model (user.js)\<close>

text \<open>
  A document of the \<open>users\<close> collection. \<open>uid\<close> is the field \<open>_id\<close>. A path that was
  never assigned is the empty string, which the \<open>required\<close> validator rejects like
  \<open>undefined\<close>.
\<close>

record user =
  uid :: string
  email :: string
  name :: string
  hash :: string
  salt :: string

definition new_User :: "string \<Rightarrow> user" where
  "new_User oid = \<lparr>uid = oid, email = [], name = [], hash = [], salt = []\<rparr>"

text \<open>
  Assignment to a path runs the setters the schema declares for it: \<open>lowercase\<close> and
  \<open>trim\<close> for \<open>email\<close>, \<open>trim\<close> for \<open>name\<close>.
\<close>

definition castEmail :: "string \<Rightarrow> string" where
  "castEmail v = toLowerCase (trim v)"

definition set_email :: "string \<Rightarrow> user \<Rightarrow> user" where
  "set_email v u = u\<lparr>email := castEmail v\<rparr>"

definition set_name :: "string \<Rightarrow> user \<Rightarrow> user" where
  "set_name v u = u\<lparr>name := trim v\<rparr>"

text \<open>
  \<^verbatim>\<open>this.salt = crypto.randomBytes(16).toString("hex");\<close>
  \<^verbatim>\<open>this.hash = crypto.pbkdf2Sync(password, this.salt, 100000, 64, "sha512").toString("hex");\<close>
\<close>

definition setPassword :: "lib \<Rightarrow> string \<Rightarrow> entropy \<Rightarrow> user \<Rightarrow> user \<times> entropy" where
  "setPassword L password e u =
     (let (bytes, e') = randomBytes 16 e;
          u1 = u\<lparr>salt := toHex bytes\<rparr>;
          u2 = u1\<lparr>hash := toHex (pbkdf2Sync L password (salt u1) 100000 64 ''sha512'')\<rparr>
      in (u2, e'))"

definition validPassword :: "lib \<Rightarrow> user \<Rightarrow> string \<Rightarrow> bool" where
  "validPassword L u password =
     (let h = toHex (pbkdf2Sync L password (salt u) 100000 64 ''sha512'')
      in hash u = h)"

text \<open>
  \<^verbatim>\<open>const expiry = new Date(); expiry.setDate(expiry.getDate() + 7);\<close>
  Time values are milliseconds since the epoch. \<open>Date.prototype.setDate(dt)\<close> works on the
  \<^emph>\<open>local\<close> time \<open>lt = LocalTime(t)\<close>: the new time value is
  \<open>UTC(MakeDate(MakeDay(YearFromTime(lt), MonthFromTime(lt), dt), TimeWithinDay(lt)))\<close>.
  \<open>MakeDay(y, m, dt)\<close> is the day number of the first day of month \<open>m\<close> of year \<open>y\<close>, plus
  \<open>dt - 1\<close>; \<open>getDate()\<close> is the day of the month of \<open>lt\<close>. So with \<open>dt = getDate() + n\<close>
  the day that \<open>MakeDay\<close> returns is \<open>Day(lt) + n\<close>, whatever the month and the year are.
\<close>

definition msPerDay :: int where
  "msPerDay = 86400000"

definition Day :: "int \<Rightarrow> int" where
  "Day t = t div msPerDay"

definition TimeWithinDay :: "int \<Rightarrow> int" where
  "TimeWithinDay t = t mod msPerDay"

definition MakeDate :: "int \<Rightarrow> int \<Rightarrow> int" where
  "MakeDate day time = day * msPerDay + time"

definition LocalTime :: "lib \<Rightarrow> int \<Rightarrow> int" where
  "LocalTime L t = t + LocalTZA L t True"

definition UTC :: "lib \<Rightarrow> int \<Rightarrow> int" where
  "UTC L t = t - LocalTZA L t False"

definition setDate_plus :: "lib \<Rightarrow> int \<Rightarrow> int \<Rightarrow> int" where
  "setDate_plus L n t =
     (let lt = LocalTime L t
      in UTC L (MakeDate (Day lt + n) (TimeWithinDay lt)))"

text \<open>
  \<^verbatim>\<open>parseInt(expiry.getTime() / 1000, 10)\<close>: the digits before the decimal point, that is
  the quotient truncated towards zero.
\<close>

definition parseInt_seconds :: "int \<Rightarrow> int" where
  "parseInt_seconds ms = (if 0 \<le> ms then ms div 1000 else - ((- ms) div 1000))"

definition jwt_claims :: "lib \<Rightarrow> int \<Rightarrow> user \<Rightarrow> jwt_payload" where
  "jwt_claims L now u =
     \<lparr>p_id = uid u, p_email = email u, p_name = name u,
      p_exp = parseInt_seconds (setDate_plus L 7 now)\<rparr>"

definition generateJwt :: "lib \<Rightarrow> int \<Rightarrow> user \<Rightarrow> string" where
  "generateJwt L now u = jwt_sign L (jwt_claims L now u) (JWT_SECRET L)"

text \<open>
  The pre-save hook:
  \<^verbatim>\<open>this.email = validator.normalizeEmail(this.email, { all_lowercase: true });\<close>
  \<^verbatim>\<open>this.name = validator.escape(this.name.trim());\<close>
  Both are assignments to schema paths, so the setters run on the new values.
\<close>

definition preSave :: "lib \<Rightarrow> user \<Rightarrow> user" where
  "preSave L u =
     (let u1 = set_email (normalizeEmail L (email u)) u
      in set_name (escape L (trim (name u1))) u1)"

text \<open>
  The validators of the schema: \<open>email\<close> is required and must satisfy \<open>validator.isEmail\<close>
  ("Please enter a valid email"); \<open>name\<close> is required and at most 50 characters long
  ("Name must be less than 50 characters"). The first failing validator of a path is the
  one reported for it.
\<close>

datatype path_error = EmailRequired | EmailInvalid | NameRequired | NameTooLong

definition validate :: "lib \<Rightarrow> user \<Rightarrow> path_error list" where
  "validate L u =
     (if email u = [] then [EmailRequired]
      else if \<not> isEmail L (email u) then [EmailInvalid] else [])
     @ (if name u = [] then [NameRequired]
        else if 50 < length (name u) then [NameTooLong] else [])"

section \<open>The document store\<close>

text \<open>
  The database holds the two collections. \<open>connected\<close> tells whether the store answers:
  when it does not, every operation throws. \<open>oplog\<close> records every operation that was
  sent to the store, in order.
\<close>

record trip =
  code :: string
  tname :: string
  tlength :: string
  start :: string
  resort :: string
  perPerson :: string
  image :: string
  description :: string

datatype db_op = FindOneUser string | InsertUser user | FindTrips "string option"

datatype error =
  ValidationError "path_error list"
  | DuplicateKey string
  | ConnectionError
  | Error string

record db =
  users :: "user list"
  trips :: "trip list"
  connected :: bool
  oplog :: "db_op list"

definition empty_db :: db where
  "empty_db = \<lparr>users = [], trips = [], connected = True, oplog = []\<rparr>"

text \<open>
  \<^verbatim>\<open>User.findOne({ email: username }).exec()\<close>: the filter value is cast with the setters
  of the path; the result is the first matching document or \<open>null\<close>.
\<close>

definition findOne :: "string \<Rightarrow> db \<Rightarrow> (error + user option) \<times> db" where
  "findOne e d =
     (let d' = d\<lparr>oplog := oplog d @ [FindOneUser e]\<rparr>
      in if \<not> connected d then (Inl ConnectionError, d')
         else (Inr (find (\<lambda>u. email u = castEmail e) (users d)), d'))"

text \<open>
  \<^verbatim>\<open>Model.find({}).exec()\<close> and \<^verbatim>\<open>Model.find({ code: tripCode }).exec()\<close>: the array of
  the matching documents.
\<close>

definition Model_find :: "string option \<Rightarrow> db \<Rightarrow> (error + trip list) \<times> db" where
  "Model_find flt d =
     (let d' = d\<lparr>oplog := oplog d @ [FindTrips flt]\<rparr>
      in if \<not> connected d then (Inl ConnectionError, d')
         else (Inr (case flt of None \<Rightarrow> trips d
                    | Some c \<Rightarrow> filter (\<lambda>t. code t = c) (trips d)), d'))"

text \<open>
  \<^verbatim>\<open>user.save()\<close>: validation runs first, then the pre-save hook, then the document is
  inserted. The index that \<open>unique: true\<close> declares on \<open>email\<close> makes the store refuse a
  document whose email is already present.
\<close>

definition save :: "lib \<Rightarrow> user \<Rightarrow> db \<Rightarrow> (error + user) \<times> db" where
  "save L u d =
     (case validate L u of
        x # xs \<Rightarrow> (Inl (ValidationError (x # xs)), d)
      | [] \<Rightarrow>
          (let u' = preSave L u;
               d' = d\<lparr>oplog := oplog d @ [InsertUser u']\<rparr>
           in if \<not> connected d then (Inl ConnectionError, d')
              else if email u' \<in> set (map email (users d)) then (Inl (DuplicateKey (email u')), d')
              else (Inr u', d'\<lparr>users := users d @ [u']\<rparr>)))"

section \<open>HTTP requests and responses\<close>

text \<open>
  The fields of the request body are strings; a field is \<open>None\<close> when it is absent. The
  test \<open>!req.body.x\<close> holds for an absent field and for the empty string.
\<close>

record request =
  req_name :: "string option"
  req_email :: "string option"
  req_password :: "string option"

definition falsy :: "string option \<Rightarrow> bool" where
  "falsy v = (case v of None \<Rightarrow> True | Some s \<Rightarrow> s = [])"

definition str :: "string option \<Rightarrow> string" where
  "str v = (case v of None \<Rightarrow> [] | Some s \<Rightarrow> s)"

datatype body =
  Message string
  | TokenBody string
  | ErrorBody error
  | TripsBody "trip list"

text \<open>
  What a handler does with a request: it sends a response with a status and a JSON body,
  or an exception escapes from it and the handler itself sends nothing.
\<close>

datatype outcome = Responded nat body | Threw error

fun token_of :: "outcome \<Rightarrow> string option" where
  "token_of (Responded st (TokenBody t)) = Some t"
| "token_of _ = None"

fun status_of :: "outcome \<Rightarrow> nat option" where
  "status_of (Responded st b) = Some st"
| "status_of (Threw e) = None"

section \<open>The local strategy (passport.js)\<close>

text \<open>
  The arguments of a call of \<open>done\<close> are a triple: the error, the user and the message of
  the info object, each \<open>None\<close> when it is \<open>null\<close>, \<open>false\<close> or not given.
  \<open>passport.authenticate("local", callback)\<close> passes the triple on to the callback.
\<close>

type_synonym done_args = "error option \<times> user option \<times> string option"

definition localStrategy :: "lib \<Rightarrow> string \<Rightarrow> string \<Rightarrow> db \<Rightarrow> done_args \<times> db" where
  "localStrategy L username password d =
     (case findOne username d of
        (Inl err, d') \<Rightarrow> ((Some err, None, None), d')
      | (Inr None, d') \<Rightarrow> ((None, None, Some ''Incorrect username.''), d')
      | (Inr (Some u), d') \<Rightarrow>
          if \<not> validPassword L u password
          then ((None, None, Some ''Incorrect password.''), d')
          else ((None, Some u, None), d'))"

section \<open>The authentication controller (authentication.js)\<close>

text \<open>
  \<open>register\<close> reads the clock, takes a fresh \<open>_id\<close> for the new document and draws from the
  entropy source; these are arguments, and the entropy that is left is returned with the
  database.
\<close>

definition register ::
  "lib \<Rightarrow> request \<Rightarrow> int \<Rightarrow> string \<Rightarrow> entropy \<Rightarrow> db \<Rightarrow> outcome \<times> entropy \<times> db" where
  "register L req now oid e d =
     (if falsy (req_name req) \<or> falsy (req_email req) \<or> falsy (req_password req)
      then (Responded 400 (Message ''All fields required''), e, d)
      else
        (let u0 = new_User oid;
             u1 = set_name (str (req_name req)) u0;
             u2 = set_email (str (req_email req)) u1;
             (u3, e') = setPassword L (str (req_password req)) e u2;
             token = generateJwt L now u3
         in case save L u3 d of
              (Inr saved, d') \<Rightarrow> (Responded 200 (TokenBody token), e', d')
            | (Inl err, d') \<Rightarrow> (Responded 400 (ErrorBody err), e', d')))"

definition login :: "lib \<Rightarrow> request \<Rightarrow> int \<Rightarrow> db \<Rightarrow> outcome \<times> db" where
  "login L req now d =
     (if falsy (req_email req) \<or> falsy (req_password req)
      then (Responded 400 (Message ''All fields required''), d)
      else
        (case localStrategy L (str (req_email req)) (str (req_password req)) d of
           ((Some err, usr, info), d') \<Rightarrow> (Responded 404 (ErrorBody err), d')
         | ((None, Some u, info), d') \<Rightarrow> (Responded 200 (TokenBody (generateJwt L now u)), d')
         | ((None, None, info), d') \<Rightarrow> (Responded 401 (Message (str info)), d')))"

section \<open>The trips controller (trips.js)\<close>

text \<open>The test \<open>!q\<close> on the result of a query: an array is an object, and every object is
  truthy, the empty array too.\<close>

definition truthy_array :: "'a list \<Rightarrow> bool" where
  "truthy_array q = True"

definition tripsList :: "db \<Rightarrow> outcome \<times> db" where
  "tripsList d =
     (case Model_find None d of
        (Inl err, d') \<Rightarrow> (Threw err, d')
      | (Inr q, d') \<Rightarrow>
          if \<not> truthy_array q
          then (Responded 404 (ErrorBody (Error ''No trips found'')), d')
          else (Responded 200 (TripsBody q), d'))"

definition tripsFindByCode :: "string \<Rightarrow> db \<Rightarrow> outcome \<times> db" where
  "tripsFindByCode tripCode d =
     (case Model_find (Some tripCode) d of
        (Inl err, d') \<Rightarrow> (Threw err, d')
      | (Inr q, d') \<Rightarrow>
          if \<not> truthy_array q
          then (Responded 404 (ErrorBody (Error ''Trip not found'')), d')
          else (Responded 200 (TripsBody q), d'))"

section \<open>The protected-route gate (index.js)\<close>

text \<open>\<^verbatim>\<open>jwt({ secret: process.env.JWT_SECRET, ..., algorithms: ["HS256"] })\<close>: the token of the
  request is checked against the secret at the time of the request.\<close>

definition auth :: "lib \<Rightarrow> string \<Rightarrow> int \<Rightarrow> jwt_payload option" where
  "auth L token now = jwt_verify L token (JWT_SECRET L) now"

section \<open>Runs of the service\<close>

text \<open>A request to the service together with what its handler reads from the environment.\<close>

datatype event =
  Register request int string entropy
  | Login request int
  | TripsList
  | TripsFindByCode string

fun step :: "lib \<Rightarrow> db \<Rightarrow> event \<Rightarrow> db" where
  "step L d (Register req now oid e) = snd (snd (register L req now oid e d))"
| "step L d (Login req now) = snd (login L req now d)"
| "step L d TripsList = snd (tripsList d)"
| "step L d (TripsFindByCode c) = snd (tripsFindByCode c d)"

definition run :: "lib \<Rightarrow> db \<Rightarrow> event list \<Rightarrow> db" where
  "run L d evs = foldl (step L) d evs"

section \<open>Notions used to state the properties\<close>

text \<open>The document that \<open>register\<close> has built from a request when it calls \<open>save\<close>.\<close>

definition register_doc :: "lib \<Rightarrow> request \<Rightarrow> string \<Rightarrow> entropy \<Rightarrow> user" where
  "register_doc L req oid e =
     fst (setPassword L (str (req_password req)) e
            (set_email (str (req_email req)) (set_name (str (req_name req)) (new_User oid))))"



section \<open>A concrete instance of the libraries\<close>

text \<open>
  Simple stand-ins for the library functions, on which the definitions above can be
  evaluated. \<open>demo_escape\<close> follows the replacement table of \<open>validator.escape\<close>;
  \<open>demo_normalizeEmail\<close> removes a sub-address (\<open>+tag\<close>) from the local part; the tokens
  of \<open>demo_sign\<close> spell out the secret and the payload, and \<open>demo_verify\<close> reads them back,
  accepting a token under the same secret before its expiry. \<open>demo_tza\<close> is a zone five
  hours behind UTC that moves its clocks forward by one hour at 2024-03-10T07:00:00Z.
\<close>

definition demo_pbkdf2 :: "string \<Rightarrow> string \<Rightarrow> nat \<Rightarrow> nat \<Rightarrow> string \<Rightarrow> byte list" where
  "demo_pbkdf2 password slt iterations keylen digest =
     map (\<lambda>i. of_nat (i + sum_list (map of_char (password @ slt)))) [0..<keylen]"

definition pack :: "string \<Rightarrow> string" where
  "pack s = replicate (length s) CHR ''a'' @ CHR ''|'' # s"

definition unpack :: "string \<Rightarrow> string \<times> string" where
  "unpack t =
     (let n = length (takeWhile (\<lambda>c. c = CHR ''a'') t); r = drop (Suc n) t
      in (take n r, drop n r))"

fun enc_nat :: "nat \<Rightarrow> string" where
  "enc_nat 0 = []"
| "enc_nat (Suc n) = (if even n then CHR ''1'' else CHR ''0'') # enc_nat (Suc n div 2)"

fun dec_nat :: "string \<Rightarrow> nat" where
  "dec_nat [] = 0"
| "dec_nat (c # cs) = (if c = CHR ''1'' then 1 else 0) + 2 * dec_nat cs"

definition enc_int :: "int \<Rightarrow> string" where
  "enc_int x = (if x < 0 then CHR ''-'' else CHR ''+'') # enc_nat (nat \<bar>x\<bar>)"

definition dec_int :: "string \<Rightarrow> int" where
  "dec_int s = (case s of [] \<Rightarrow> 0 | c # cs \<Rightarrow> if c = CHR ''-'' then - int (dec_nat cs) else int (dec_nat cs))"

definition demo_sign :: "jwt_payload \<Rightarrow> string \<Rightarrow> string" where
  "demo_sign p k = pack k @ pack (p_id p) @ pack (p_email p) @ pack (p_name p) @ enc_int (p_exp p)"

definition demo_verify :: "string \<Rightarrow> string \<Rightarrow> int \<Rightarrow> jwt_payload option" where
  "demo_verify tok k t =
     (let (k', r1) = unpack tok; (i, r2) = unpack r1; (em, r3) = unpack r2; (nm, r4) = unpack r3;
          p = \<lparr>p_id = i, p_email = em, p_name = nm, p_exp = dec_int r4\<rparr>
      in if k' = k \<and> t div 1000 < p_exp p then Some p else None)"

definition demo_isEmail :: "string \<Rightarrow> bool" where
  "demo_isEmail s = (CHR ''@'' \<in> set s)"

definition demo_normalizeEmail :: "string \<Rightarrow> string" where
  "demo_normalizeEmail s =
     takeWhile (\<lambda>c. c \<noteq> CHR ''+'') (takeWhile (\<lambda>c. c \<noteq> CHR ''@'') s)
     @ dropWhile (\<lambda>c. c \<noteq> CHR ''@'') s"

definition escapeChar :: "char \<Rightarrow> string" where
  "escapeChar c =
     (if c = CHR ''&'' then ''&amp;''
      else if c = CHR 0x22 then ''&quot;''
      else if c = CHR 0x27 then ''&#x27;''
      else if c = CHR ''<'' then ''&lt;''
      else if c = CHR ''>'' then ''&gt;''
      else if c = CHR ''/'' then ''&#x2F;''
      else if c = CHR 0x5C then ''&#x5C;''
      else if c = CHR 0x60 then ''&#96;''
      else [c])"

definition demo_escape :: "string \<Rightarrow> string" where
  "demo_escape s = concat (map escapeChar s)"

definition demo_tza :: "int \<Rightarrow> bool \<Rightarrow> int" where
  "demo_tza t isUTC =
     (if t < (if isUTC then 1710054000000 else 1710036000000) then - 18000000 else - 14400000)"

definition demo_lib :: lib where
  "demo_lib =
     \<lparr>pbkdf2Sync = demo_pbkdf2, jwt_sign = demo_sign, jwt_verify = demo_verify,
      isEmail = demo_isEmail, normalizeEmail = demo_normalizeEmail, escape = demo_escape,
      LocalTZA = demo_tza, JWT_SECRET = ''s3cret''\<rparr>"

definition demo_entropy :: entropy where
  "demo_entropy i = of_nat (17 * i + 3)"

text \<open>A request, a stored account and a database holding it, for the examples.\<close>

definition demo_req :: request where
  "demo_req = \<lparr>req_name = Some ''<b>Al</b>'', req_email = Some '' AL+x@B.c '',
               req_password = Some ''hunter2''\<rparr>"

definition demo_user :: user where
  "demo_user =
     (fst (setPassword demo_lib ''hunter2'' demo_entropy (new_User ''65e7'')))
       \<lparr>email := ''al@b.c'', name := ''Al''\<rparr>"

definition demo_db :: db where
  "demo_db = empty_db\<lparr>users := [demo_user]\<rparr>"


section \<open>Properties of the string and encoding functions\<close>

lemma hexVal_hexDigit: "n < 16 \<Longrightarrow> hexVal (hexDigit n) = n"
  by (simp add: hexDigit_def hexVal_def Let_def)

lemma hexDigit_isHex: "isHexDigit (hexDigit n)"
proof -
  have "n mod 16 < 16" by simp
  then show ?thesis
    by (simp add: hexDigit_def isHexDigit_def Let_def del: mod_less_divisor)
qed

lemma hexByte_inj: "hexByte a = hexByte b \<Longrightarrow> a = b"
proof -
  assume h: "hexByte a = hexByte b"
  have la: "unat a div 16 < 16" and lb: "unat b div 16 < 16"
    using unsigned_less [of a, where 'a = nat] unsigned_less [of b, where 'a = nat] by simp_all
  from h have "hexDigit (unat a div 16) = hexDigit (unat b div 16)"
    and "hexDigit (unat a mod 16) = hexDigit (unat b mod 16)"
    by (simp_all add: hexByte_def)
  then have "hexVal (hexDigit (unat a div 16)) = hexVal (hexDigit (unat b div 16))"
    and "hexVal (hexDigit (unat a mod 16)) = hexVal (hexDigit (unat b mod 16))"
    by simp_all
  then have "unat a div 16 = unat b div 16" and "unat a mod 16 = unat b mod 16"
    using la lb by (simp_all add: hexVal_hexDigit)
  then have "unat a = unat b"
    by (metis div_mult_mod_eq)
  then show "a = b" by (simp add: word_unat_eq_iff)
qed

lemma toHex_inj: "toHex xs = toHex ys \<Longrightarrow> xs = ys"
proof (induction xs arbitrary: ys)
  case Nil
  then show ?case by (cases ys) (simp_all add: toHex_def hexByte_def)
next
  case (Cons x xs)
  show ?case
  proof (cases ys)
    case Nil
    with Cons.prems show ?thesis by (simp add: toHex_def hexByte_def)
  next
    case (Cons y ys')
    with Cons.prems have "hexByte x = hexByte y" and "toHex xs = toHex ys'"
      by (simp_all add: toHex_def hexByte_def)
    with Cons.IH Cons show ?thesis by (simp add: hexByte_inj)
  qed
qed

lemma toHex_eq_iff: "toHex xs = toHex ys \<longleftrightarrow> xs = ys"
  using toHex_inj by auto

lemma length_toHex: "length (toHex bs) = 2 * length bs"
  by (induction bs) (simp_all add: toHex_def hexByte_def)

lemma toHex_digits: "c \<in> set (toHex bs) \<Longrightarrow> isHexDigit c"
  by (induction bs) (auto simp add: toHex_def hexByte_def hexDigit_isHex)




lemma trim_idem: "trim (trim s) = trim s"
proof (cases "dropWhile isSpace s")
  case Nil
  have a: "trim s = []" unfolding trim_def Nil by simp
  have b: "trim [] = []" by (simp add: trim_def)
  show ?thesis by (simp only: a b)
next
  case (Cons x t)
  then have nx: "\<not> isSpace x"
    using hd_dropWhile [of isSpace s] by auto
  have r: "trim s = x # rev (dropWhile isSpace (rev t))"
    using Cons nx by (simp add: trim_def dropWhile_append3)
  have "rev (trim s) = dropWhile isSpace (rev (dropWhile isSpace s))"
    by (simp add: trim_def)
  then have "dropWhile isSpace (rev (trim s)) = rev (trim s)"
    by simp
  moreover have "dropWhile isSpace (trim s) = trim s"
    using r nx by simp
  ultimately show ?thesis
    by (simp add: trim_def [of "trim s"])
qed








section \<open>Basic facts about the model\<close>

lemma setPassword_eq:
  "setPassword L p e u =
     (u\<lparr>salt := toHex (map e [0..<16]),
        hash := toHex (pbkdf2Sync L p (toHex (map e [0..<16])) 100000 64 ''sha512'')\<rparr>,
      \<lambda>i. e (i + 16))"
  by (simp add: setPassword_def randomBytes_def Let_def)

lemma preSave_eq:
  "preSave L u = u\<lparr>email := castEmail (normalizeEmail L (email u)),
                     name := trim (escape L (trim (name u)))\<rparr>"
  by (simp add: preSave_def set_email_def set_name_def Let_def)

lemma save_users:
  "save L u d = (r, d') \<Longrightarrow>
     (case r of Inl err \<Rightarrow> users d' = users d
      | Inr u' \<Rightarrow> u' = preSave L u \<and> users d' = users d @ [u']
          \<and> email u' \<notin> set (map email (users d)) \<and> connected d \<and> validate L u = [])"
  by (auto simp add: save_def Let_def split: list.splits if_splits)

lemma register_eq:
  "\<not> falsy (req_name req) \<Longrightarrow> \<not> falsy (req_email req) \<Longrightarrow> \<not> falsy (req_password req) \<Longrightarrow>
   register L req now oid e d =
     (case save L (register_doc L req oid e) d of
        (Inr saved, d') \<Rightarrow>
          (Responded 200 (TokenBody (generateJwt L now (register_doc L req oid e))), \<lambda>i. e (i + 16), d')
      | (Inl err, d') \<Rightarrow> (Responded 400 (ErrorBody err), \<lambda>i. e (i + 16), d'))"
  by (simp add: register_def register_doc_def setPassword_eq Let_def split: prod.splits sum.splits)

lemma register_doc_fields:
  "uid (register_doc L req oid e) = oid"
  "email (register_doc L req oid e) = castEmail (str (req_email req))"
  "name (register_doc L req oid e) = trim (str (req_name req))"
  by (simp_all add: register_doc_def setPassword_eq set_email_def set_name_def new_User_def)








lemma parseInt_seconds_nonneg: "0 \<le> ms \<Longrightarrow> parseInt_seconds ms = ms div 1000"
  by (simp add: parseInt_seconds_def)

lemma setDate_plus_eq: "setDate_plus L n t = UTC L (LocalTime L t + n * msPerDay)"
proof -
  have "MakeDate (Day x + n) (TimeWithinDay x) = x + n * msPerDay" for x
    by (simp add: MakeDate_def Day_def TimeWithinDay_def algebra_simps)
  then show ?thesis
    by (simp add: setDate_plus_def Let_def)
qed

lemma setDate_plus_same_offset:
  "LocalTZA L (LocalTime L t + n * msPerDay) False = LocalTZA L t True \<Longrightarrow>
   setDate_plus L n t = t + n * msPerDay"
  by (simp add: setDate_plus_eq UTC_def LocalTime_def)

section \<open>Evaluation of the concrete instance\<close>

lemma unpack_pack: "unpack (pack s @ r) = (s, r)"
proof -
  have "takeWhile (\<lambda>c. c = CHR ''a'') (replicate (length s) CHR ''a'' @ CHR ''|'' # s @ r)
        = replicate (length s) CHR ''a''"
    by (simp add: takeWhile_tail)
  then show ?thesis
    by (simp add: unpack_def pack_def)
qed

lemma dec_enc_nat: "dec_nat (enc_nat n) = n"
proof (induction n rule: enc_nat.induct)
  case 1
  show ?case by simp
next
  case (2 n)
  then show ?case by (auto elim: evenE oddE)
qed

lemma dec_enc_int: "dec_int (enc_int x) = x"
  by (simp add: dec_int_def enc_int_def dec_enc_nat)

lemma demo_roundtrip:
  "t div 1000 < p_exp p \<Longrightarrow> demo_verify (demo_sign p k) k t = Some p"
  by (simp add: demo_verify_def demo_sign_def unpack_pack dec_enc_int)

lemma demo_lib_simps:
  "pbkdf2Sync demo_lib = demo_pbkdf2" "jwt_sign demo_lib = demo_sign"
  "jwt_verify demo_lib = demo_verify" "isEmail demo_lib = demo_isEmail"
  "normalizeEmail demo_lib = demo_normalizeEmail" "escape demo_lib = demo_escape"
  "LocalTZA demo_lib = demo_tza" "JWT_SECRET demo_lib = ''s3cret''"
  by (simp_all add: demo_lib_def)

lemma demo_strings:
  "castEmail '' AL+x@B.c '' = ''al+x@b.c''"
  "demo_normalizeEmail ''al+x@b.c'' = ''al@b.c''"
  "castEmail ''al@b.c'' = ''al@b.c''"
  "trim ''<b>Al</b>'' = ''<b>Al</b>''"
  "trim (demo_escape ''<b>Al</b>'') = ''&lt;b&gt;Al&lt;&#x2F;b&gt;''"
  "demo_isEmail ''al+x@b.c''"
  by code_simp+

lemma demo_user_fields:
  "uid demo_user = ''65e7''" "email demo_user = ''al@b.c''" "name demo_user = ''Al''"
  "salt demo_user = toHex (map demo_entropy [0..<16])"
  "hash demo_user = toHex (demo_pbkdf2 ''hunter2'' (salt demo_user) 100000 64 ''sha512'')"
  by (simp_all add: demo_user_def setPassword_eq new_User_def demo_lib_simps)

lemma demo_salt: "salt demo_user = ''031425364758697a8b9cadbecfe0f102''"
  unfolding demo_user_fields by code_simp

lemma demo_pbkdf2_differs:
  "demo_pbkdf2 ''hunter3'' s 100000 64 ''sha512'' \<noteq> demo_pbkdf2 ''hunter2'' s 100000 64 ''sha512''"
proof
  assume "demo_pbkdf2 ''hunter3'' s 100000 64 ''sha512'' = demo_pbkdf2 ''hunter2'' s 100000 64 ''sha512''"
  then have "demo_pbkdf2 ''hunter3'' s 100000 64 ''sha512'' ! 0 = demo_pbkdf2 ''hunter2'' s 100000 64 ''sha512'' ! 0"
    by simp
  then show False
    by (simp add: demo_pbkdf2_def)
qed

lemma demo_wrong_password: "\<not> validPassword demo_lib demo_user ''hunter3''"
  by (simp add: validPassword_def demo_user_fields demo_lib_simps toHex_eq_iff
      demo_pbkdf2_differs demo_pbkdf2_differs [symmetric])

lemma demo_req_present:
  "\<not> falsy (req_name demo_req)" "\<not> falsy (req_email demo_req)" "\<not> falsy (req_password demo_req)"
  by (simp_all add: falsy_def demo_req_def)

lemma demo_doc_fields:
  "email (register_doc demo_lib demo_req oid e) = ''al+x@b.c''"
  "name (register_doc demo_lib demo_req oid e) = ''<b>Al</b>''"
  by (simp_all add: register_doc_fields demo_req_def str_def demo_strings)

lemma demo_validate: "validate demo_lib (register_doc demo_lib demo_req oid e) = []"
  by (simp add: validate_def demo_doc_fields demo_lib_simps demo_strings)

lemma demo_preSave_fields:
  "email (preSave demo_lib (register_doc demo_lib demo_req oid e)) = ''al@b.c''"
  "name (preSave demo_lib (register_doc demo_lib demo_req oid e)) = ''&lt;b&gt;Al&lt;&#x2F;b&gt;''"
  by (simp_all add: preSave_eq demo_doc_fields demo_lib_simps demo_strings)

lemma demo_register_ok:
  "register demo_lib demo_req now oid e empty_db =
     (Responded 200 (TokenBody (generateJwt demo_lib now (register_doc demo_lib demo_req oid e))),
      \<lambda>i. e (i + 16),
      empty_db\<lparr>oplog := [InsertUser (preSave demo_lib (register_doc demo_lib demo_req oid e))],
               users := [preSave demo_lib (register_doc demo_lib demo_req oid e)]\<rparr>)"
  by (simp add: register_eq demo_req_present save_def demo_validate empty_db_def Let_def)

lemma demo_register_dup:
  "register demo_lib demo_req now oid e demo_db =
     (Responded 400 (ErrorBody (DuplicateKey ''al@b.c'')),
      \<lambda>i. e (i + 16),
      demo_db\<lparr>oplog := [InsertUser (preSave demo_lib (register_doc demo_lib demo_req oid e))]\<rparr>)"
  by (simp add: register_eq demo_req_present save_def demo_validate demo_db_def empty_db_def
      Let_def demo_preSave_fields demo_user_fields)

lemma demo_offsets:
  "LocalTZA demo_lib (LocalTime demo_lib 1700000000000 + 7 * msPerDay) False
     = LocalTZA demo_lib 1700000000000 True"
  by (simp add: demo_lib_simps demo_tza_def LocalTime_def msPerDay_def)







section \<open>The properties of the specification\<close>

subsection \<open>C1: a password verifies exactly when its derived key matches\<close>

text \<open>
  Claim C1. \<open>validPassword\<close> holds exactly when the hexadecimal form of
  \<open>pbkdf2Sync(password, salt, 100000, 64, "sha512")\<close> equals the stored hash. After
  \<open>setPassword p\<close> the password \<open>p\<close> verifies against the stored salt and hash, and any
  password \<open>q\<close> verifies if and only if the key derived from \<open>q\<close> and the stored salt is the
  key derived from \<open>p\<close>; so a password whose derived key differs is rejected.
\<close>

theorem validPassword_setPassword:
  "(validPassword L u0 q \<longleftrightarrow> toHex (pbkdf2Sync L q (salt u0) 100000 64 ''sha512'') = hash u0)
   \<and> (setPassword L p e u = (u', e') \<longrightarrow>
        validPassword L u' p
        \<and> (validPassword L u' q \<longleftrightarrow>
             pbkdf2Sync L q (salt u') 100000 64 ''sha512'' = pbkdf2Sync L p (salt u') 100000 64 ''sha512'')
        \<and> (pbkdf2Sync L q (salt u') 100000 64 ''sha512'' \<noteq> pbkdf2Sync L p (salt u') 100000 64 ''sha512''
             \<longrightarrow> \<not> validPassword L u' q))"
  by (auto simp add: validPassword_def setPassword_eq Let_def toHex_eq_iff)

text \<open>
  C1 on the concrete instance: \<open>hunter2\<close> is set, \<open>hunter2\<close> verifies and \<open>hunter3\<close>, whose
  derived key differs, does not.
\<close>

theorem validPassword_setPassword_witness:
  "setPassword demo_lib ''hunter2'' demo_entropy (new_User ''65e7'')
     = (fst (setPassword demo_lib ''hunter2'' demo_entropy (new_User ''65e7'')),
        snd (setPassword demo_lib ''hunter2'' demo_entropy (new_User ''65e7'')))
   \<and> pbkdf2Sync demo_lib ''hunter3''
        (salt (fst (setPassword demo_lib ''hunter2'' demo_entropy (new_User ''65e7'')))) 100000 64 ''sha512''
      \<noteq> pbkdf2Sync demo_lib ''hunter2''
        (salt (fst (setPassword demo_lib ''hunter2'' demo_entropy (new_User ''65e7'')))) 100000 64 ''sha512''
   \<and> validPassword demo_lib (fst (setPassword demo_lib ''hunter2'' demo_entropy (new_User ''65e7''))) ''hunter2''
   \<and> \<not> validPassword demo_lib (fst (setPassword demo_lib ''hunter2'' demo_entropy (new_User ''65e7''))) ''hunter3''"
proof -
  let ?r = "setPassword demo_lib ''hunter2'' demo_entropy (new_User ''65e7'')"
  have h1: "?r = (fst ?r, snd ?r)" by simp
  have h2: "pbkdf2Sync demo_lib ''hunter3'' (salt (fst ?r)) 100000 64 ''sha512''
      \<noteq> pbkdf2Sync demo_lib ''hunter2'' (salt (fst ?r)) 100000 64 ''sha512''"
    by (simp add: demo_lib_simps demo_pbkdf2_differs)
  from validPassword_setPassword [of demo_lib "fst ?r" "''hunter3''" "''hunter2''" demo_entropy
      "new_User ''65e7''" "fst ?r" "snd ?r"] h1 h2
  show ?thesis by blast
qed

subsection \<open>C2: the payload and expiry of the token\<close>

text \<open>
  Claim C2, as the code has it. \<open>generateJwt\<close> hands \<open>jwt.sign\<close> the payload
  \<open>{_id, email, name, exp}\<close> built from the record, and \<open>process.env.JWT_SECRET\<close>, with no
  options. \<open>exp\<close> is the whole-second part of the instant seven calendar days later in the
  local time zone of the server; when the zone has the same offset from UTC at both
  instants (and the clock is not before the epoch) this is the issuance time plus seven
  days, \<open>now div 1000 + 604800\<close>, which lies after the issuance. For a signer and validator
  such that validating a signed, unexpired payload under the same secret returns that
  payload, validating the token at any time before \<open>exp\<close> yields claims whose \<open>_id\<close>,
  \<open>email\<close> and \<open>name\<close> are the fields of the record.
\<close>

theorem generateJwt_payload:
  "generateJwt L now u =
     jwt_sign L \<lparr>p_id = uid u, p_email = email u, p_name = name u,
                 p_exp = parseInt_seconds (UTC L (LocalTime L now + 7 * msPerDay))\<rparr> (JWT_SECRET L)
   \<and> generateJwt L now u = jwt_sign L (jwt_claims L now u) (JWT_SECRET L)
   \<and> (0 \<le> now \<and> LocalTZA L (LocalTime L now + 7 * msPerDay) False = LocalTZA L now True \<longrightarrow>
        p_exp (jwt_claims L now u) = (now + 7 * msPerDay) div 1000
        \<and> p_exp (jwt_claims L now u) = now div 1000 + 604800
        \<and> now div 1000 < p_exp (jwt_claims L now u))
   \<and> ((\<forall>p k. t div 1000 < p_exp p \<longrightarrow> jwt_verify L (jwt_sign L p k) k t = Some p)
        \<and> t div 1000 < p_exp (jwt_claims L now u) \<longrightarrow>
        (\<exists>c. auth L (generateJwt L now u) t = Some c
           \<and> p_id c = uid u \<and> p_email c = email u \<and> p_name c = name u
           \<and> p_exp c = p_exp (jwt_claims L now u)))"
proof (intro conjI impI)
  show "generateJwt L now u =
     jwt_sign L \<lparr>p_id = uid u, p_email = email u, p_name = name u,
                 p_exp = parseInt_seconds (UTC L (LocalTime L now + 7 * msPerDay))\<rparr> (JWT_SECRET L)"
    by (simp add: generateJwt_def jwt_claims_def setDate_plus_eq)
  show "generateJwt L now u = jwt_sign L (jwt_claims L now u) (JWT_SECRET L)"
    by (simp add: generateJwt_def)
next
  assume a: "0 \<le> now \<and> LocalTZA L (LocalTime L now + 7 * msPerDay) False = LocalTZA L now True"
  then have "setDate_plus L 7 now = now + 7 * msPerDay"
    by (simp add: setDate_plus_same_offset)
  with a have e: "p_exp (jwt_claims L now u) = (now + 7 * msPerDay) div 1000"
    by (simp add: jwt_claims_def parseInt_seconds_nonneg msPerDay_def)
  then show "p_exp (jwt_claims L now u) = (now + 7 * msPerDay) div 1000" .
  from e show "p_exp (jwt_claims L now u) = now div 1000 + 604800"
    by (simp add: msPerDay_def)
  from e show "now div 1000 < p_exp (jwt_claims L now u)"
    by (simp add: msPerDay_def)
next
  assume "(\<forall>p k. t div 1000 < p_exp p \<longrightarrow> jwt_verify L (jwt_sign L p k) k t = Some p)
        \<and> t div 1000 < p_exp (jwt_claims L now u)"
  then have "auth L (generateJwt L now u) t = Some (jwt_claims L now u)"
    by (simp add: auth_def generateJwt_def)
  then show "\<exists>c. auth L (generateJwt L now u) t = Some c
           \<and> p_id c = uid u \<and> p_email c = email u \<and> p_name c = name u
           \<and> p_exp c = p_exp (jwt_claims L now u)"
    by (simp add: jwt_claims_def)
qed

text \<open>
  The expiry is not always the issuance time plus seven days: in a zone that moves its
  clocks forward during the seven days, a token issued at 2024-03-05T17:00:00Z expires
  at 2024-03-12T16:00:00Z, one hour short of seven days.
\<close>

theorem generateJwt_exp_counterexample:
  "p_exp (jwt_claims demo_lib 1709658000000 demo_user) = 1710259200
   \<and> (1709658000000 + 7 * msPerDay) div 1000 = (1710262800::int)
   \<and> p_exp (jwt_claims demo_lib 1709658000000 demo_user) \<noteq> (1709658000000 + 7 * msPerDay) div 1000"
  by (simp add: jwt_claims_def setDate_plus_eq UTC_def LocalTime_def demo_lib_simps demo_tza_def
      msPerDay_def parseInt_seconds_def)

text \<open>
  C2 on the concrete instance, away from a change of offset: issued at 1700000000000 ms,
  the token expires at 1700604800 s and validates at once to the identity of the record.
\<close>

theorem generateJwt_payload_witness:
  "(0::int) \<le> 1700000000000
   \<and> LocalTZA demo_lib (LocalTime demo_lib 1700000000000 + 7 * msPerDay) False
        = LocalTZA demo_lib 1700000000000 True
   \<and> p_exp (jwt_claims demo_lib 1700000000000 demo_user) = 1700604800
   \<and> (1700000000000::int) div 1000 < p_exp (jwt_claims demo_lib 1700000000000 demo_user)
   \<and> auth demo_lib (generateJwt demo_lib 1700000000000 demo_user) 1700000000000
        = Some \<lparr>p_id = ''65e7'', p_email = ''al@b.c'', p_name = ''Al'', p_exp = 1700604800\<rparr>"
proof -
  have z: "(0::int) \<le> 1700000000000" by simp
  have c: "\<forall>p k. (1700000000000::int) div 1000 < p_exp p \<longrightarrow>
          jwt_verify demo_lib (jwt_sign demo_lib p k) k 1700000000000 = Some p"
    by (simp add: demo_lib_simps demo_roundtrip)
  note t = generateJwt_payload [of demo_lib 1700000000000 demo_user 1700000000000]
  from t z demo_offsets
  have e: "p_exp (jwt_claims demo_lib 1700000000000 demo_user) = 1700000000000 div 1000 + 604800"
    and l: "(1700000000000::int) div 1000 < p_exp (jwt_claims demo_lib 1700000000000 demo_user)"
    by blast+
  from e have e': "p_exp (jwt_claims demo_lib 1700000000000 demo_user) = 1700604800"
    by simp
  from t c l obtain x where a: "auth demo_lib (generateJwt demo_lib 1700000000000 demo_user) 1700000000000 = Some x"
    and f: "p_id x = uid demo_user" "p_email x = email demo_user" "p_name x = name demo_user"
      "p_exp x = p_exp (jwt_claims demo_lib 1700000000000 demo_user)"
    by blast
  from f e' have "x = \<lparr>p_id = ''65e7'', p_email = ''al@b.c'', p_name = ''Al'', p_exp = 1700604800\<rparr>"
    by (simp add: demo_user_fields)
  with a have a': "auth demo_lib (generateJwt demo_lib 1700000000000 demo_user) 1700000000000
        = Some \<lparr>p_id = ''65e7'', p_email = ''al@b.c'', p_name = ''Al'', p_exp = 1700604800\<rparr>"
    by simp
  from z demo_offsets e' l a' show ?thesis by blast
qed

subsection \<open>C3: login with an unknown email\<close>

text \<open>
  Claim C3. When the body of a login request has an email and a password and the lookup
  of the email finds no record, the response is the failure 401 with the message
  "Incorrect username."; its body holds no token, and the stored records are unchanged.
\<close>

theorem login_unknown_email:
  assumes "\<not> falsy (req_email req)" and "\<not> falsy (req_password req)"
    and "findOne (str (req_email req)) d = (Inr None, d')"
  shows "login L req now d = (Responded 401 (Message ''Incorrect username.''), d')
    \<and> token_of (fst (login L req now d)) = None
    \<and> users d' = users d"
  using assms
  by (auto simp add: login_def localStrategy_def str_def findOne_def Let_def split: if_splits)

text \<open>
  C3 on the concrete instance: the address of the request is not the one that is stored.
\<close>

theorem login_unknown_email_witness:
  "\<not> falsy (req_email demo_req) \<and> \<not> falsy (req_password demo_req)
   \<and> findOne (str (req_email demo_req)) demo_db
       = (Inr None, demo_db\<lparr>oplog := [FindOneUser '' AL+x@B.c '']\<rparr>)
   \<and> login demo_lib demo_req 1700000000000 demo_db
       = (Responded 401 (Message ''Incorrect username.''),
          demo_db\<lparr>oplog := [FindOneUser '' AL+x@B.c '']\<rparr>)
   \<and> token_of (fst (login demo_lib demo_req 1700000000000 demo_db)) = None"
proof -
  have f: "findOne (str (req_email demo_req)) demo_db
       = (Inr None, demo_db\<lparr>oplog := [FindOneUser '' AL+x@B.c '']\<rparr>)"
    by (simp add: findOne_def demo_req_def str_def demo_db_def empty_db_def demo_strings
        demo_user_fields)
  from login_unknown_email [OF demo_req_present(2) demo_req_present(3) f, of demo_lib 1700000000000]
    demo_req_present f
  show ?thesis by blast
qed

subsection \<open>C4: what setPassword stores\<close>

text \<open>
  Claim C4. \<open>setPassword\<close> stores as salt the hexadecimal form of 16 bytes (128 bits) newly
  drawn from the entropy source, 32 hexadecimal digits, and as hash the hexadecimal form
  of \<open>pbkdf2Sync(password, salt, 100000, 64, "sha512")\<close>, 128 digits when the derivation
  returns the 64 bytes it is asked for. No other field of the record changes, and the
  entropy source is left after the 16 bytes, so that the next call draws the following
  ones.
\<close>

theorem setPassword_effect:
  assumes "setPassword L p e u = (u', e')"
  shows "salt u' = toHex (fst (randomBytes 16 e))
    \<and> length (fst (randomBytes 16 e)) = 16
    \<and> length (salt u') = 32
    \<and> (\<forall>c \<in> set (salt u'). isHexDigit c)
    \<and> hash u' = toHex (pbkdf2Sync L p (salt u') 100000 64 ''sha512'')
    \<and> (length (pbkdf2Sync L p (salt u') 100000 64 ''sha512'') = 64 \<longrightarrow> length (hash u') = 128)
    \<and> u' = u\<lparr>salt := salt u', hash := hash u'\<rparr>
    \<and> uid u' = uid u \<and> email u' = email u \<and> name u' = name u
    \<and> e' = snd (randomBytes 16 e)
    \<and> salt (fst (setPassword L p2 e' u2)) = toHex (map e [16..<32])"
proof -
  have "map (\<lambda>i. e (i + 16)) [0..<16] = map e (map (\<lambda>i. i + 16) [0..<16])"
    by (simp only: map_map comp_def)
  also have "\<dots> = map e [16..<32]"
    by (simp only: map_add_upt) simp
  finally have n: "map (\<lambda>i. e (i + 16)) [0..<16] = map e [16..<32]" .
  from assms have e': "e' = (\<lambda>i. e (i + 16))"
    by (simp add: setPassword_eq)
  have "salt (fst (setPassword L p2 e' u2)) = toHex (map e [16..<32])"
    unfolding e' setPassword_eq using n by simp
  with assms show ?thesis
    by (auto simp add: setPassword_eq randomBytes_def length_toHex toHex_digits)
qed

text \<open>
  C4 on the concrete instance.
\<close>

theorem setPassword_effect_witness:
  "setPassword demo_lib ''hunter2'' demo_entropy (new_User ''65e7'')
     = (fst (setPassword demo_lib ''hunter2'' demo_entropy (new_User ''65e7'')),
        snd (setPassword demo_lib ''hunter2'' demo_entropy (new_User ''65e7'')))
   \<and> length (pbkdf2Sync demo_lib ''hunter2''
        (salt (fst (setPassword demo_lib ''hunter2'' demo_entropy (new_User ''65e7'')))) 100000 64 ''sha512'') = 64
   \<and> salt (fst (setPassword demo_lib ''hunter2'' demo_entropy (new_User ''65e7'')))
        = ''031425364758697a8b9cadbecfe0f102''
   \<and> list_all isHexDigit ''031425364758697a8b9cadbecfe0f102''
   \<and> length (hash (fst (setPassword demo_lib ''hunter2'' demo_entropy (new_User ''65e7'')))) = 128
   \<and> uid (fst (setPassword demo_lib ''hunter2'' demo_entropy (new_User ''65e7''))) = ''65e7''"
proof -
  let ?r = "setPassword demo_lib ''hunter2'' demo_entropy (new_User ''65e7'')"
  have h1: "?r = (fst ?r, snd ?r)" by simp
  have h2: "length (pbkdf2Sync demo_lib ''hunter2'' (salt (fst ?r)) 100000 64 ''sha512'') = 64"
    by (simp add: demo_lib_simps demo_pbkdf2_def)
  have s: "salt (fst ?r) = ''031425364758697a8b9cadbecfe0f102''"
    using demo_salt by (simp add: demo_user_def)
  have u: "uid (new_User ''65e7'') = ''65e7''"
    by (simp add: new_User_def)
  note t = setPassword_effect [OF h1]
  from t h2 have l: "length (hash (fst ?r)) = 128" by blast
  from t have d: "\<forall>c \<in> set (salt (fst ?r)). isHexDigit c" by blast
  from t u have i: "uid (fst ?r) = ''65e7''" by simp
  show ?thesis
  proof (intro conjI)
    show "?r = (fst ?r, snd ?r)" by (rule h1)
    show "length (pbkdf2Sync demo_lib ''hunter2'' (salt (fst ?r)) 100000 64 ''sha512'') = 64"
      by (rule h2)
    show "salt (fst ?r) = ''031425364758697a8b9cadbecfe0f102''" by (rule s)
    show "list_all isHexDigit ''031425364758697a8b9cadbecfe0f102''"
      using d by (simp only: s list_all_iff)
    show "length (hash (fst ?r)) = 128" by (rule l)
    show "uid (fst ?r) = ''65e7''" by (rule i)
  qed
qed

subsection \<open>C5: registration with an email that is already stored\<close>

text \<open>
  Claim C5. For a registration request with all three fields: when the email, as it would
  be stored (cast, normalized and cast again), is the email of a stored record, the
  response is 400 with the error of the store as its body (the duplicate-key error when
  validation passes and the store answers), it holds no token, and the stored records are
  unchanged. Whenever the response does hold a token, exactly one record was added, under
  an email that was not stored before.
\<close>

theorem register_duplicate_email:
  assumes "\<not> falsy (req_name req)" and "\<not> falsy (req_email req)" and "\<not> falsy (req_password req)"
    and "register L req now oid e d = (out, e', d')"
  shows "(castEmail (normalizeEmail L (castEmail (str (req_email req)))) \<in> set (map email (users d)) \<longrightarrow>
          (\<exists>err. out = Responded 400 (ErrorBody err)
             \<and> (validate L (register_doc L req oid e) = [] \<and> connected d \<longrightarrow>
                  err = DuplicateKey (castEmail (normalizeEmail L (castEmail (str (req_email req)))))))
          \<and> token_of out = None \<and> users d' = users d)
    \<and> (token_of out \<noteq> None \<longrightarrow>
          (\<exists>u'. users d' = users d @ [u'] \<and> email u' \<notin> set (map email (users d))))"
  using assms
  by (auto simp add: register_eq save_def Let_def preSave_eq register_doc_fields
      split: list.splits if_splits)

text \<open>
  C5 on the concrete instance: \<open>AL+x@B.c\<close> is stored as \<open>al@b.c\<close>, which \<open>demo_db\<close> already
  holds; on the empty database the same request succeeds and adds one record.
\<close>

theorem register_duplicate_email_witness:
  "\<not> falsy (req_name demo_req) \<and> \<not> falsy (req_email demo_req) \<and> \<not> falsy (req_password demo_req)
   \<and> castEmail (normalizeEmail demo_lib (castEmail (str (req_email demo_req))))
        \<in> set (map email (users demo_db))
   \<and> fst (register demo_lib demo_req 1700000000000 ''65e8'' demo_entropy demo_db)
        = Responded 400 (ErrorBody (DuplicateKey ''al@b.c''))
   \<and> token_of (fst (register demo_lib demo_req 1700000000000 ''65e8'' demo_entropy demo_db)) = None
   \<and> users (snd (snd (register demo_lib demo_req 1700000000000 ''65e8'' demo_entropy demo_db)))
        = users demo_db
   \<and> token_of (fst (register demo_lib demo_req 1700000000000 ''65e8'' demo_entropy empty_db)) \<noteq> None
   \<and> (\<exists>u'. users (snd (snd (register demo_lib demo_req 1700000000000 ''65e8'' demo_entropy empty_db)))
          = users empty_db @ [u'] \<and> email u' \<notin> set (map email (users empty_db)))"
proof -
  let ?r = "register demo_lib demo_req 1700000000000 ''65e8'' demo_entropy demo_db"
  let ?s = "register demo_lib demo_req 1700000000000 ''65e8'' demo_entropy empty_db"
  have m: "castEmail (normalizeEmail demo_lib (castEmail (str (req_email demo_req))))
        \<in> set (map email (users demo_db))"
    by (simp add: demo_req_def str_def demo_lib_simps demo_strings demo_db_def demo_user_fields)
  have o: "fst ?r = Responded 400 (ErrorBody (DuplicateKey ''al@b.c''))"
    by (simp add: demo_register_dup)
  have t: "token_of (fst ?s) \<noteq> None"
    by (simp add: demo_register_ok)
  have r: "?r = (fst ?r, fst (snd ?r), snd (snd ?r))" by simp
  have s: "?s = (fst ?s, fst (snd ?s), snd (snd ?s))" by simp
  note dup = register_duplicate_email [OF demo_req_present r]
  note ok = register_duplicate_email [OF demo_req_present s]
  from dup m have "token_of (fst ?r) = None" and "users (snd (snd ?r)) = users demo_db"
    by blast+
  moreover from ok t have "\<exists>u'. users (snd (snd ?s)) = users empty_db @ [u']
      \<and> email u' \<notin> set (map email (users empty_db))"
    by blast
  ultimately show ?thesis
    using demo_req_present m o t by blast
qed

subsection \<open>C6: login with a wrong password\<close>

text \<open>
  Claim C6. When the body of a login request has an email and a password, the lookup of
  the email finds a record, and the password fails \<open>validPassword\<close> against the salt and
  hash of that record, the response has status 401 (with the message "Incorrect
  password.") and its body holds no token.
\<close>

theorem login_wrong_password:
  assumes "\<not> falsy (req_email req)" and "\<not> falsy (req_password req)"
    and "findOne (str (req_email req)) d = (Inr (Some u), d')"
    and "\<not> validPassword L u (str (req_password req))"
  shows "login L req now d = (Responded 401 (Message ''Incorrect password.''), d')
    \<and> status_of (fst (login L req now d)) = Some 401
    \<and> token_of (fst (login L req now d)) = None"
  using assms
  by (simp add: login_def localStrategy_def str_def)

text \<open>
  C6 on the concrete instance: the stored account with the password \<open>hunter3\<close>.
\<close>

theorem login_wrong_password_witness:
  "\<not> falsy (req_email \<lparr>req_name = None, req_email = Some ''al@b.c'', req_password = Some ''hunter3''\<rparr>)
   \<and> \<not> falsy (req_password \<lparr>req_name = None, req_email = Some ''al@b.c'', req_password = Some ''hunter3''\<rparr>)
   \<and> findOne ''al@b.c'' demo_db = (Inr (Some demo_user), demo_db\<lparr>oplog := [FindOneUser ''al@b.c'']\<rparr>)
   \<and> \<not> validPassword demo_lib demo_user ''hunter3''
   \<and> login demo_lib \<lparr>req_name = None, req_email = Some ''al@b.c'', req_password = Some ''hunter3''\<rparr>
        1700000000000 demo_db
       = (Responded 401 (Message ''Incorrect password.''), demo_db\<lparr>oplog := [FindOneUser ''al@b.c'']\<rparr>)"
proof -
  let ?req = "\<lparr>req_name = None, req_email = Some ''al@b.c'', req_password = Some ''hunter3''\<rparr>"
  have p: "\<not> falsy (req_email ?req)" "\<not> falsy (req_password ?req)"
    by (simp_all add: falsy_def)
  have f: "findOne ''al@b.c'' demo_db = (Inr (Some demo_user), demo_db\<lparr>oplog := [FindOneUser ''al@b.c'']\<rparr>)"
    by (simp add: findOne_def demo_db_def empty_db_def demo_strings demo_user_fields)
  then have f': "findOne (str (req_email ?req)) demo_db
      = (Inr (Some demo_user), demo_db\<lparr>oplog := [FindOneUser ''al@b.c'']\<rparr>)"
    by (simp add: str_def)
  have w: "\<not> validPassword demo_lib demo_user (str (req_password ?req))"
    using demo_wrong_password by (simp add: str_def)
  from login_wrong_password [OF p f' w, of 1700000000000] p f demo_wrong_password
  show ?thesis by blast
qed

subsection \<open>C7: missing fields are rejected before the store is touched\<close>

text \<open>
  Claim C7. A registration request in which \<open>name\<close>, \<open>email\<close> or \<open>password\<close> is missing (or
  empty), and a login request in which \<open>email\<close> or \<open>password\<close> is missing (or empty), is
  answered with 400 and the message "All fields required". No token is issued, and the
  database is returned as it was, its log of operations included: no operation was sent
  to the store. The entropy source is untouched as well.
\<close>

theorem missing_fields_rejected:
  "(falsy (req_name req) \<or> falsy (req_email req) \<or> falsy (req_password req) \<longrightarrow>
      register L req now oid e d = (Responded 400 (Message ''All fields required''), e, d))
   \<and> (falsy (req_email req) \<or> falsy (req_password req) \<longrightarrow>
      login L req now d = (Responded 400 (Message ''All fields required''), d))
   \<and> falsy None \<and> falsy (Some [])"
  by (simp add: register_def login_def falsy_def)

text \<open>
  C7 on the concrete instance: a registration without a name and a login with an empty
  password.
\<close>

theorem missing_fields_rejected_witness:
  "falsy (req_name (demo_req\<lparr>req_name := None\<rparr>))
   \<and> register demo_lib (demo_req\<lparr>req_name := None\<rparr>) 1700000000000 ''65e8'' demo_entropy demo_db
       = (Responded 400 (Message ''All fields required''), demo_entropy, demo_db)
   \<and> falsy (req_password (demo_req\<lparr>req_password := Some []\<rparr>))
   \<and> login demo_lib (demo_req\<lparr>req_password := Some []\<rparr>) 1700000000000 demo_db
       = (Responded 400 (Message ''All fields required''), demo_db)"
proof -
  have a: "falsy (req_name (demo_req\<lparr>req_name := None\<rparr>))"
    by (simp add: falsy_def)
  have b: "falsy (req_password (demo_req\<lparr>req_password := Some []\<rparr>))"
    by (simp add: falsy_def)
  from missing_fields_rejected [of "demo_req\<lparr>req_name := None\<rparr>" demo_lib 1700000000000 "''65e8''"
      demo_entropy demo_db] a
  have r: "register demo_lib (demo_req\<lparr>req_name := None\<rparr>) 1700000000000 ''65e8'' demo_entropy demo_db
       = (Responded 400 (Message ''All fields required''), demo_entropy, demo_db)"
    by blast
  from missing_fields_rejected [of "demo_req\<lparr>req_password := Some []\<rparr>" demo_lib 1700000000000 "''65e8''"
      demo_entropy demo_db] b
  have l: "login demo_lib (demo_req\<lparr>req_password := Some []\<rparr>) 1700000000000 demo_db
       = (Responded 400 (Message ''All fields required''), demo_db)"
    by blast
  from a r b l show ?thesis by blast
qed

subsection \<open>C8: stored records are sanitized\<close>



subsection \<open>C9: the trip queries never answer 404\<close>

text \<open>
  Claim C9. When the store answers, \<open>tripsList\<close> and \<open>tripsFindByCode\<close> respond with status
  200 and the list of the matching documents, also when that list is empty. The result
  of the query is a list and therefore truthy, so neither handler ever responds with 404:
  when the store does not answer, the exception of the query leaves the handler and no
  response is sent by it.
\<close>

theorem trips_never_404:
  "(connected d \<longrightarrow>
      fst (tripsList d) = Responded 200 (TripsBody (trips d))
      \<and> fst (tripsFindByCode c d) = Responded 200 (TripsBody (filter (\<lambda>t. code t = c) (trips d))))
   \<and> (connected d \<and> trips d = [] \<longrightarrow> fst (tripsList d) = Responded 200 (TripsBody []))
   \<and> (connected d \<and> filter (\<lambda>t. code t = c) (trips d) = [] \<longrightarrow>
        fst (tripsFindByCode c d) = Responded 200 (TripsBody []))
   \<and> status_of (fst (tripsList d)) \<noteq> Some 404
   \<and> status_of (fst (tripsFindByCode c d)) \<noteq> Some 404
   \<and> (\<not> connected d \<longrightarrow>
        fst (tripsList d) = Threw ConnectionError \<and> fst (tripsFindByCode c d) = Threw ConnectionError)"
  by (simp add: tripsList_def tripsFindByCode_def Model_find_def truthy_array_def Let_def)

text \<open>
  C9 on the concrete instance: the empty collection.
\<close>

theorem trips_never_404_witness:
  "connected empty_db \<and> trips empty_db = []
   \<and> filter (\<lambda>t. code t = ''GALR210214'') (trips empty_db) = []
   \<and> fst (tripsList empty_db) = Responded 200 (TripsBody [])
   \<and> fst (tripsFindByCode ''GALR210214'' empty_db) = Responded 200 (TripsBody [])"
proof -
  have c: "connected empty_db" and t: "trips empty_db = []"
    by (simp_all add: empty_db_def)
  then have f: "filter (\<lambda>t. code t = ''GALR210214'') (trips empty_db) = []"
    by simp
  from trips_never_404 [of empty_db "''GALR210214''"] c t f show ?thesis
    by blast
qed

subsection \<open>C10: the token of a registration carries the values before sanitization\<close>

text \<open>
  Claim C10. When a registration succeeds, the token it returns was signed before the
  pre-save hook ran: its \<open>name\<close> and \<open>email\<close> claims are the values of the request after the
  setters of the schema only, while the stored record holds the escaped name and the
  normalized email. So where the escaping changes the name the \<open>name\<close> claim differs from the
  stored name, where the normalizer changes the email the \<open>email\<close> claim differs from the
  stored email, and in either case the identity in the token is not that of the stored
  record.
\<close>

theorem register_token_before_sanitization:
  assumes "register L req now oid e d = (Responded 200 (TokenBody tok), e', d')"
  shows "\<exists>c u'. tok = jwt_sign L c (JWT_SECRET L)
      \<and> users d' = users d @ [u']
      \<and> p_id c = uid u'
      \<and> p_name c = trim (str (req_name req))
      \<and> p_email c = castEmail (str (req_email req))
      \<and> name u' = trim (escape L (p_name c))
      \<and> email u' = castEmail (normalizeEmail L (p_email c))
      \<and> (trim (escape L (p_name c)) \<noteq> p_name c \<longrightarrow> p_name c \<noteq> name u')
      \<and> (castEmail (normalizeEmail L (p_email c)) \<noteq> p_email c \<longrightarrow> p_email c \<noteq> email u')
      \<and> (trim (escape L (p_name c)) \<noteq> p_name c \<or> castEmail (normalizeEmail L (p_email c)) \<noteq> p_email c
            \<longrightarrow> (p_name c, p_email c) \<noteq> (name u', email u'))"
proof -
  let ?doc = "register_doc L req oid e"
  from assms have nf: "\<not> (falsy (req_name req) \<or> falsy (req_email req) \<or> falsy (req_password req))"
    by (auto simp add: register_def)
  obtain res d1 where s: "save L ?doc d = (res, d1)"
    by (cases "save L ?doc d")
  from nf assms s obtain u' where res: "res = Inr u'" and d': "d' = d1"
    and tok: "tok = generateJwt L now ?doc"
    by (cases res) (auto simp add: register_eq)
  from save_users [OF s] res d' have u': "u' = preSave L ?doc" and us: "users d' = users d @ [u']"
    by simp_all
  let ?c = "jwt_claims L now ?doc"
  have "tok = jwt_sign L ?c (JWT_SECRET L)"
    using tok by (simp add: generateJwt_def)
  moreover have "p_id ?c = uid u'" "p_name ?c = trim (str (req_name req))"
    "p_email ?c = castEmail (str (req_email req))"
    by (simp_all add: jwt_claims_def register_doc_fields u' preSave_eq)
  moreover have "name u' = trim (escape L (p_name ?c))"
    "email u' = castEmail (normalizeEmail L (p_email ?c))"
    by (simp_all add: jwt_claims_def register_doc_fields u' preSave_eq trim_idem)
  ultimately show ?thesis
    using us by (intro exI [of _ ?c] exI [of _ u']) auto
qed

text \<open>
  C10 on the concrete instance: the token names \<open><b>Al</b>\<close> and \<open>al+x@b.c\<close>, the record
  holds the escaped name and \<open>al@b.c\<close>.
\<close>

theorem register_token_before_sanitization_witness:
  "register demo_lib demo_req 1700000000000 ''65e8'' demo_entropy empty_db
     = (Responded 200
          (TokenBody (generateJwt demo_lib 1700000000000
             (register_doc demo_lib demo_req ''65e8'' demo_entropy))),
        \<lambda>i. demo_entropy (i + 16),
        run demo_lib empty_db [Register demo_req 1700000000000 ''65e8'' demo_entropy])
   \<and> (\<exists>c u'. generateJwt demo_lib 1700000000000 (register_doc demo_lib demo_req ''65e8'' demo_entropy)
                = jwt_sign demo_lib c (JWT_SECRET demo_lib)
          \<and> users (run demo_lib empty_db [Register demo_req 1700000000000 ''65e8'' demo_entropy]) = [u']
          \<and> p_name c = ''<b>Al</b>'' \<and> name u' = ''&lt;b&gt;Al&lt;&#x2F;b&gt;''
          \<and> p_email c = ''al+x@b.c'' \<and> email u' = ''al@b.c''
          \<and> p_name c \<noteq> name u' \<and> p_email c \<noteq> email u')"
proof -
  let ?evs = "[Register demo_req 1700000000000 ''65e8'' demo_entropy]"
  let ?doc = "register_doc demo_lib demo_req ''65e8'' demo_entropy"
  have d: "run demo_lib empty_db ?evs
      = empty_db\<lparr>oplog := [InsertUser (preSave demo_lib ?doc)], users := [preSave demo_lib ?doc]\<rparr>"
    by (simp add: run_def demo_register_ok)
  have r: "register demo_lib demo_req 1700000000000 ''65e8'' demo_entropy empty_db
       = (Responded 200 (TokenBody (generateJwt demo_lib 1700000000000 ?doc)),
          \<lambda>i. demo_entropy (i + 16), run demo_lib empty_db ?evs)"
    by (simp only: d demo_register_ok)
  from register_token_before_sanitization [OF r]
  obtain c u' where t: "generateJwt demo_lib 1700000000000 ?doc = jwt_sign demo_lib c (JWT_SECRET demo_lib)"
    and us: "users (run demo_lib empty_db ?evs) = users empty_db @ [u']"
    and pn: "p_name c = trim (str (req_name demo_req))"
    and pe: "p_email c = castEmail (str (req_email demo_req))"
    and un: "name u' = trim (escape demo_lib (p_name c))"
    and ue: "email u' = castEmail (normalizeEmail demo_lib (p_email c))"
    by blast
  from pn have pn': "p_name c = ''<b>Al</b>''"
    by (simp add: demo_req_def str_def demo_strings)
  from pe have pe': "p_email c = ''al+x@b.c''"
    by (simp add: demo_req_def str_def demo_strings)
  from un pn' have un': "name u' = ''&lt;b&gt;Al&lt;&#x2F;b&gt;''"
    by (simp add: demo_lib_simps demo_strings)
  from ue pe' have ue': "email u' = ''al@b.c''"
    by (simp add: demo_lib_simps demo_strings)
  from us have us': "users (run demo_lib empty_db ?evs) = [u']"
    by (simp add: empty_db_def)
  have "p_name c \<noteq> name u'" "p_email c \<noteq> email u'"
    by (simp_all add: pn' un' pe' ue')
  with t us' pn' pe' un' ue' have "\<exists>c u'. generateJwt demo_lib 1700000000000 ?doc
                = jwt_sign demo_lib c (JWT_SECRET demo_lib)
          \<and> users (run demo_lib empty_db ?evs) = [u']
          \<and> p_name c = ''<b>Al</b>'' \<and> name u' = ''&lt;b&gt;Al&lt;&#x2F;b&gt;''
          \<and> p_email c = ''al+x@b.c'' \<and> email u' = ''al@b.c''
          \<and> p_name c \<noteq> name u' \<and> p_email c \<noteq> email u'"
    by blast
  with r show ?thesis by blast
qed

end
